theory Spec2Isabelle
  imports Complex_Main "HOL-Library.Char_ord" "HOL-Library.List_Lexorder"
begin

section \<open>Guided tour (src/tutorial/TutorialContext.tsx)\<close>

text \<open>
  The tour's step is one of five string literals. The provider keeps \<open>active\<close>,
  \<open>step\<close> and \<open>username\<close> as React state and writes the step to AsyncStorage, a
  key-value store of strings.
\<close>

datatype Step = Home | Levels | Practice | Profile | Done

fun step_name :: "Step \<Rightarrow> string" where
  "step_name Home = ''home''"
| "step_name Levels = ''levels''"
| "step_name Practice = ''practice''"
| "step_name Profile = ''profile''"
| "step_name Done = ''done''"

record tutorial =
  active :: bool
  step :: Step
  username :: "string option"
  asyncStorage :: "string \<rightharpoonup> string"

text \<open>\<open>String.prototype.toLowerCase\<close> on ASCII text (user names are validated against
  \<open>[a-zA-Z0-9_]\<close> at sign-up).\<close>

definition toLowerCase :: "string \<Rightarrow> string" where
  "toLowerCase s =
     map (\<lambda>c. if CHR ''A'' \<le> c \<and> c \<le> CHR ''Z'' then char_of (of_char c + (32::nat)) else c) s"

text \<open>\<open>Array.prototype.indexOf\<close>: the first position of the element, \<open>-1\<close> when absent.\<close>

fun indexOf_from :: "'a list \<Rightarrow> 'a \<Rightarrow> int \<Rightarrow> int" where
  "indexOf_from [] x i = - 1"
| "indexOf_from (y # ys) x i = (if y = x then i else indexOf_from ys x (i + 1))"

definition indexOf :: "'a list \<Rightarrow> 'a \<Rightarrow> int" where
  "indexOf xs x = indexOf_from xs x 0"

definition order :: "Step list" where
  "order = [Home, Levels, Practice, Profile, Done]"

text \<open>\<open>persist(s)\<close>: nothing when \<open>username\<close> is null or empty (both falsy), else
  \<open>setItem('tutorialStep:' + username.toLowerCase(), s)\<close>.\<close>

definition persist :: "Step \<Rightarrow> tutorial \<Rightarrow> tutorial" where
  "persist s t =
     (case username t of
        None \<Rightarrow> t
      | Some u \<Rightarrow>
          if u = [] then t
          else t\<lparr>asyncStorage := (asyncStorage t)(''tutorialStep:'' @ toLowerCase u \<mapsto> step_name s)\<rparr>)"

text \<open>\<open>next()\<close>: \<open>idx = order.indexOf(step)\<close>,
  \<open>n = order[Math.min(idx + 1, order.length - 1)]\<close>, \<open>setStep(n)\<close>, \<open>persist(n)\<close>.
  The index is never out of range: it lies between \<open>0\<close> and \<open>order.length - 1\<close>.\<close>

definition next_step :: "Step \<Rightarrow> Step" where
  "next_step s = order ! nat (min (indexOf order s + 1) (int (length order) - 1))"

definition "next" :: "tutorial \<Rightarrow> tutorial" where
  "next t = (let n = next_step (step t) in persist n (t\<lparr>step := n\<rparr>))"

text \<open>The other transitions: \<open>start(u)\<close>, \<open>markPracticeDone()\<close> and \<open>finish()\<close>.\<close>

definition start :: "string \<Rightarrow> tutorial \<Rightarrow> tutorial" where
  "start u t =
     t\<lparr>username := Some u,
       asyncStorage := ((asyncStorage t)(''tutorialActive:'' @ toLowerCase u \<mapsto> ''1''))
                         (''tutorialStep:'' @ toLowerCase u \<mapsto> ''home''),
       step := Home, active := True\<rparr>"

definition markPracticeDone :: "tutorial \<Rightarrow> tutorial" where
  "markPracticeDone t = persist Profile (t\<lparr>step := Profile\<rparr>)"

definition finish :: "tutorial \<Rightarrow> tutorial" where
  "finish t =
     (let t1 = (case username t of
                  None \<Rightarrow> t
                | Some u \<Rightarrow>
                    if u = [] then t
                    else t\<lparr>asyncStorage :=
                           ((asyncStorage t)(''tutorialActive:'' @ toLowerCase u := None))
                             (''tutorialStep:'' @ toLowerCase u := None)\<rparr>)
      in t1\<lparr>active := False, step := Done\<rparr>)"

section \<open>SQLite clock and timestamps\<close>

text \<open>
  The clock is a parameter: \<open>now\<close> is the number of milliseconds since
  1970-01-01T00:00:00Z. \<open>strftime('%Y-%m-%dT%H:%M:%fZ','now')\<close> and
  \<open>datetime('now','-7 days')\<close> format it as text; the calendar date of a day number is
  computed with the usual era/day-of-era arithmetic of the proleptic Gregorian calendar.
\<close>

definition digit :: "int \<Rightarrow> char" where
  "digit d = ''0123456789'' ! nat (d mod 10)"

definition pad2 :: "int \<Rightarrow> string" where
  "pad2 k = [digit (k div 10), digit k]"

definition pad3 :: "int \<Rightarrow> string" where
  "pad3 k = [digit (k div 100), digit (k div 10), digit k]"

definition pad4 :: "int \<Rightarrow> string" where
  "pad4 k = [digit (k div 1000), digit (k div 100), digit (k div 10), digit k]"

definition ms_per_day :: int where
  "ms_per_day = 86400000"

definition civil_from_days :: "int \<Rightarrow> int \<times> int \<times> int" where
  "civil_from_days z0 =
     (let z = z0 + 719468;
          era = z div 146097;
          doe = z mod 146097;
          yoe = (doe - doe div 1460 + doe div 36524 - doe div 146096) div 365;
          doy = doe - (365 * yoe + yoe div 4 - yoe div 100);
          mp = (5 * doy + 2) div 153;
          d = doy - (153 * mp + 2) div 5 + 1;
          m = (if mp < 10 then mp + 3 else mp - 9);
          y = yoe + era * 400 + (if m \<le> 2 then 1 else 0)
      in (y, m, d))"

definition ymd :: "int \<Rightarrow> string" where
  "ymd t = (case civil_from_days (t div ms_per_day) of
              (y, m, d) \<Rightarrow> pad4 y @ ''-'' @ pad2 m @ ''-'' @ pad2 d)"

definition hms :: "int \<Rightarrow> string" where
  "hms t = (let r = t mod ms_per_day
            in pad2 (r div 3600000) @ '':'' @ pad2 (r div 60000 mod 60) @ '':'' @
               pad2 (r div 1000 mod 60))"

text \<open>\<open>strftime('%Y-%m-%dT%H:%M:%fZ', t)\<close>: \<open>%f\<close> is seconds with three fractional
  digits.\<close>

definition strftime_iso :: "int \<Rightarrow> string" where
  "strftime_iso t = ymd t @ ''T'' @ hms t @ ''.'' @ pad3 (t mod 1000) @ ''Z''"

text \<open>\<open>datetime(t)\<close>: \<open>YYYY-MM-DD HH:MM:SS\<close>, a space between date and time.\<close>

definition sqlite_datetime :: "int \<Rightarrow> string" where
  "sqlite_datetime t = ymd t @ '' '' @ hms t"

text \<open>\<open>datetime('now','-7 days')\<close>.\<close>

definition cutoff7 :: "int \<Rightarrow> string" where
  "cutoff7 now = sqlite_datetime (now - 7 * ms_per_day)"

section \<open>The database (src/db/schema.ts)\<close>

text \<open>
  One record per table row, with the columns of the \<open>CREATE TABLE\<close> statements.
  \<open>INTEGER\<close> columns are \<open>int\<close>, \<open>TEXT\<close> columns are \<open>string\<close> (the bytes of the UTF-8
  text), a nullable column is an \<open>option\<close>. \<open>REAL\<close> columns and the JavaScript numbers
  computed from them are modelled as exact rationals.
\<close>

record user_row =
  usr_id :: string
  display_name :: "string option"
  usr_created_at :: string

record letter_row =
  letter_id :: int
  ar :: string
  en :: "string option"
  order_index :: int

record attempt_row =
  attempt_id :: int
  user_id :: string
  target_letter_id :: int
  predicted_letter_id :: "int option"
  correct :: int
  confidence :: "rat option"
  duration_ms :: "int option"
  audio_uri :: "string option"
  created_at :: string

record level_row =
  level :: int
  min_accuracy :: rat
  min_attempts :: int

record user_level_row =
  ul_user_id :: string
  ul_level :: int
  updated_at :: string

text \<open>
  The state of the opened database: for each table \<open>None\<close> while it does not exist and
  otherwise its rows in insertion order, the names of the indexes, and the connection's
  \<open>foreign_keys\<close> pragma (off when a connection is opened).
\<close>

record db =
  foreign_keys :: bool
  meta_tbl :: "int list option"
  users_tbl :: "user_row list option"
  letters_tbl :: "letter_row list option"
  attempts_tbl :: "attempt_row list option"
  levels_tbl :: "level_row list option"
  user_levels_tbl :: "user_level_row list option"
  indexes :: "string list"

definition fresh_db :: db where
  "fresh_db = \<lparr>foreign_keys = False, meta_tbl = None, users_tbl = None, letters_tbl = None,
               attempts_tbl = None, levels_tbl = None, user_levels_tbl = None, indexes = []\<rparr>"

text \<open>What a call can throw: the \<open>Error("Unknown letter: " + ar)\<close> of \<open>letterIdByAr\<close>, and
  the two failures of a statement on this schema, a missing table and a violated
  \<open>FOREIGN KEY\<close> clause.\<close>

datatype error = UnknownLetter string | NoSuchTable string | ForeignKeyFailed

text \<open>The 28 names of \<open>CANON_LETTERS\<close>, each as the bytes of its UTF-8 encoding.\<close>

definition CANON_LETTERS :: "string list" where
  "CANON_LETTERS =
  [[CHR 0xD8, CHR 0xA7, CHR 0xD9, CHR 0x84, CHR 0xD9, CHR 0x81],
   [CHR 0xD8, CHR 0xA8, CHR 0xD8, CHR 0xA7, CHR 0xD8, CHR 0xA1],
   [CHR 0xD8, CHR 0xAA, CHR 0xD8, CHR 0xA7, CHR 0xD8, CHR 0xA1],
   [CHR 0xD8, CHR 0xAB, CHR 0xD8, CHR 0xA7, CHR 0xD8, CHR 0xA1],
   [CHR 0xD8, CHR 0xAC, CHR 0xD9, CHR 0x8A, CHR 0xD9, CHR 0x85],
   [CHR 0xD8, CHR 0xAD, CHR 0xD8, CHR 0xA7, CHR 0xD8, CHR 0xA1],
   [CHR 0xD8, CHR 0xAE, CHR 0xD8, CHR 0xA7, CHR 0xD8, CHR 0xA1],
   [CHR 0xD8, CHR 0xAF, CHR 0xD8, CHR 0xA7, CHR 0xD9, CHR 0x84],
   [CHR 0xD8, CHR 0xB0, CHR 0xD8, CHR 0xA7, CHR 0xD9, CHR 0x84],
   [CHR 0xD8, CHR 0xB1, CHR 0xD8, CHR 0xA7, CHR 0xD8, CHR 0xA1],
   [CHR 0xD8, CHR 0xB2, CHR 0xD8, CHR 0xA7, CHR 0xD9, CHR 0x8A],
   [CHR 0xD8, CHR 0xB3, CHR 0xD9, CHR 0x8A, CHR 0xD9, CHR 0x86],
   [CHR 0xD8, CHR 0xB4, CHR 0xD9, CHR 0x8A, CHR 0xD9, CHR 0x86],
   [CHR 0xD8, CHR 0xB5, CHR 0xD8, CHR 0xA7, CHR 0xD8, CHR 0xAF],
   [CHR 0xD8, CHR 0xB6, CHR 0xD8, CHR 0xA7, CHR 0xD8, CHR 0xAF],
   [CHR 0xD8, CHR 0xB7, CHR 0xD8, CHR 0xA7, CHR 0xD8, CHR 0xA1],
   [CHR 0xD8, CHR 0xB8, CHR 0xD8, CHR 0xA7, CHR 0xD8, CHR 0xA1],
   [CHR 0xD8, CHR 0xB9, CHR 0xD9, CHR 0x8A, CHR 0xD9, CHR 0x86],
   [CHR 0xD8, CHR 0xBA, CHR 0xD9, CHR 0x8A, CHR 0xD9, CHR 0x86],
   [CHR 0xD9, CHR 0x81, CHR 0xD8, CHR 0xA7, CHR 0xD8, CHR 0xA1],
   [CHR 0xD9, CHR 0x82, CHR 0xD8, CHR 0xA7, CHR 0xD9, CHR 0x81],
   [CHR 0xD9, CHR 0x83, CHR 0xD8, CHR 0xA7, CHR 0xD9, CHR 0x81],
   [CHR 0xD9, CHR 0x84, CHR 0xD8, CHR 0xA7, CHR 0xD9, CHR 0x85],
   [CHR 0xD9, CHR 0x85, CHR 0xD9, CHR 0x8A, CHR 0xD9, CHR 0x85],
   [CHR 0xD9, CHR 0x86, CHR 0xD9, CHR 0x88, CHR 0xD9, CHR 0x86],
   [CHR 0xD9, CHR 0x87, CHR 0xD8, CHR 0xA7, CHR 0xD8, CHR 0xA1],
   [CHR 0xD9, CHR 0x88, CHR 0xD8, CHR 0xA7, CHR 0xD9, CHR 0x88],
   [CHR 0xD9, CHR 0x8A, CHR 0xD8, CHR 0xA7, CHR 0xD8, CHR 0xA1]]"

subsection \<open>Migration 1\<close>

text \<open>\<open>CREATE TABLE IF NOT EXISTS\<close>: an existing table keeps its rows.\<close>

definition create_if_not_exists :: "'a list option \<Rightarrow> 'a list option" where
  "create_if_not_exists t = (case t of None \<Rightarrow> Some [] | Some rows \<Rightarrow> Some rows)"

text \<open>\<open>CREATE INDEX IF NOT EXISTS\<close>.\<close>

definition create_index :: "string \<Rightarrow> string list \<Rightarrow> string list" where
  "create_index name ixs = (if name \<in> set ixs then ixs else ixs @ [name])"

text \<open>
  The \<open>sql\<close> of migration 1, statement by statement. It runs between \<open>BEGIN\<close> and
  \<open>COMMIT\<close>, where \<open>PRAGMA foreign_keys = ON\<close> has no effect. \<open>DELETE FROM _meta\<close> and
  \<open>INSERT INTO _meta(version) VALUES (0)\<close> leave the single row \<open>0\<close>. No statement of
  the script can fail on a database of this shape.
\<close>

definition migration1_sql :: "db \<Rightarrow> db" where
  "migration1_sql d =
     d\<lparr>meta_tbl := Some [0],
       users_tbl := create_if_not_exists (users_tbl d),
       letters_tbl := create_if_not_exists (letters_tbl d),
       attempts_tbl := create_if_not_exists (attempts_tbl d),
       indexes := create_index ''idx_attempts_user_letter''
                    (create_index ''idx_attempts_user_date''
                      (create_index ''idx_attempts_user'' (indexes d))),
       levels_tbl := create_if_not_exists (levels_tbl d),
       user_levels_tbl := create_if_not_exists (user_levels_tbl d)\<rparr>"

text \<open>\<open>CANON_LETTERS.forEach((ar, i) => stmt.executeSync([i, ar, null, i]))\<close>.\<close>

definition seed_letters :: "letter_row list" where
  "seed_letters =
     map (\<lambda>(i, a). \<lparr>letter_id = int i, ar = a, en = None, order_index = int i\<rparr>)
         (enumerate 0 CANON_LETTERS)"

definition seed_levels :: "level_row list" where
  "seed_levels =
     [\<lparr>level = 1, min_accuracy = 50 / 100, min_attempts = 20\<rparr>,
      \<lparr>level = 2, min_accuracy = 65 / 100, min_attempts = 50\<rparr>,
      \<lparr>level = 3, min_accuracy = 75 / 100, min_attempts = 100\<rparr>,
      \<lparr>level = 4, min_accuracy = 85 / 100, min_attempts = 200\<rparr>,
      \<lparr>level = 5, min_accuracy = 92 / 100, min_attempts = 350\<rparr>]"

text \<open>The \<open>post\<close> step: each catalog is inserted only when \<open>SELECT COUNT(*)\<close> of its table
  is \<open>0\<close>. It runs after \<open>sql\<close>, so both tables exist.\<close>

definition migration1_post :: "db \<Rightarrow> db" where
  "migration1_post d =
     (let d1 = (case letters_tbl d of
                  Some rows \<Rightarrow>
                    if length rows = 0 then d\<lparr>letters_tbl := Some (rows @ seed_letters)\<rparr> else d
                | None \<Rightarrow> d)
      in (case levels_tbl d1 of
            Some rows \<Rightarrow>
              if length rows = 0 then d1\<lparr>levels_tbl := Some (rows @ seed_levels)\<rparr> else d1
          | None \<Rightarrow> d1))"

record migration =
  m_id :: int
  m_sql :: "db \<Rightarrow> db"
  m_post :: "db \<Rightarrow> db"

definition MIGRATIONS :: "migration list" where
  "MIGRATIONS = [\<lparr>m_id = 1, m_sql = migration1_sql, m_post = migration1_post\<rparr>]"

text \<open>\<open>SELECT version FROM _meta LIMIT 1\<close>: the first row, if any.\<close>

definition meta_first :: "db \<Rightarrow> int option" where
  "meta_first d = (case meta_tbl d of Some (v # _) \<Rightarrow> Some v | _ \<Rightarrow> None)"

text \<open>One round of the loop of \<open>runMigrations\<close>: a migration whose id exceeds \<open>cur\<close> runs
  its script, \<open>UPDATE _meta SET version = m.id\<close> (every row of the table), then its
  \<open>post\<close> step, and \<open>cur\<close> becomes its id.\<close>

definition apply_migration :: "migration \<Rightarrow> int \<times> db \<Rightarrow> int \<times> db" where
  "apply_migration m s =
     (case s of (cur, d) \<Rightarrow>
        if m_id m > cur then
          (let d1 = m_sql m d;
               d2 = d1\<lparr>meta_tbl := map_option (map (\<lambda>_. m_id m)) (meta_tbl d1)\<rparr>;
               d3 = m_post m d2
           in (m_id m, d3))
        else (cur, d))"

definition runMigrations :: "db \<Rightarrow> db" where
  "runMigrations d0 =
     (let d1 = d0\<lparr>foreign_keys := True\<rparr>;
          d2 = d1\<lparr>meta_tbl := create_if_not_exists (meta_tbl d1)\<rparr>;
          d3 = (case meta_first d2 of
                  None \<Rightarrow> d2\<lparr>meta_tbl := map_option (\<lambda>rows. rows @ [0]) (meta_tbl d2)\<rparr>
                | Some _ \<Rightarrow> d2);
          cur = (case meta_first d3 of None \<Rightarrow> 0 | Some v \<Rightarrow> v)
      in snd (fold apply_migration MIGRATIONS (cur, d3)))"

text \<open>The insert of \<open>ensureLocalUser\<close> (services/user.ts):
  \<open>INSERT INTO users(id, display_name) VALUES (?, 'Local User')\<close>; \<open>created_at\<close> takes
  its default. A repeated id violates the primary key and leaves the table as it was.\<close>

definition insert_user :: "db \<Rightarrow> int \<Rightarrow> string \<Rightarrow> db" where
  "insert_user d now uid =
     (case users_tbl d of
        None \<Rightarrow> d
      | Some rows \<Rightarrow>
          if uid \<in> set (map usr_id rows) then d
          else d\<lparr>users_tbl := Some (rows @ [\<lparr>usr_id = uid, display_name = Some ''Local User'',
                                              usr_created_at = strftime_iso now\<rparr>])\<rparr>)"

section \<open>Attempts and progress (src/services/data.ts)\<close>

text \<open>An optional property of a JavaScript object: missing (\<open>undefined\<close>), \<open>null\<close>, or a
  value.\<close>

datatype 'a optional = Undefined | Null | Present 'a

text \<open>\<open>x ?? null\<close> as a column value.\<close>

fun nullish :: "'a optional \<Rightarrow> 'a option" where
  "nullish Undefined = None"
| "nullish Null = None"
| "nullish (Present v) = Some v"

record NewAttempt =
  userId :: string
  targetLetterAr :: string
  predictedLetterAr :: "string optional"
  correctFlag :: bool
  confidenceVal :: "rat optional"
  durationMs :: "int optional"
  audioUri :: "string optional"

text \<open>\<open>letterIdByAr\<close>: \<open>SELECT id FROM letters WHERE ar = ?\<close>, first row, and
  \<open>throw new Error("Unknown letter: " + ar)\<close> when there is none.\<close>

definition letterIdByAr :: "db \<Rightarrow> string \<Rightarrow> error + int" where
  "letterIdByAr d a =
     (case letters_tbl d of
        None \<Rightarrow> Inl (NoSuchTable ''letters'')
      | Some ls \<Rightarrow>
          (case find (\<lambda>l. ar l = a) ls of
             None \<Rightarrow> Inl (UnknownLetter a)
           | Some row \<Rightarrow> Inr (letter_id row)))"

text \<open>\<open>a.predictedLetterAr ? letterIdByAr(a.predictedLetterAr) : null\<close>: \<open>undefined\<close>,
  \<open>null\<close> and the empty string are falsy.\<close>

definition resolve_predicted :: "db \<Rightarrow> string optional \<Rightarrow> error + int option" where
  "resolve_predicted d p =
     (case p of
        Present s \<Rightarrow>
          if s \<noteq> [] then (case letterIdByAr d s of Inl e \<Rightarrow> Inl e | Inr i \<Rightarrow> Inr (Some i))
          else Inr None
      | _ \<Rightarrow> Inr None)"

text \<open>The parent-key check of \<open>FOREIGN KEY(user_id) REFERENCES users(id)\<close>, made by an
  insert while the \<open>foreign_keys\<close> pragma is on.\<close>

definition user_fk_ok :: "db \<Rightarrow> string \<Rightarrow> bool" where
  "user_fk_ok d uid =
     (\<not> foreign_keys d \<or>
      (case users_tbl d of None \<Rightarrow> False | Some us \<Rightarrow> uid \<in> set (map usr_id us)))"

text \<open>The rowid given to a new row of \<open>attempts\<close>: one more than the largest in the
  table (no row of the table is ever deleted or given an explicit id).\<close>

definition next_attempt_id :: "attempt_row list \<Rightarrow> int" where
  "next_attempt_id rows = fold max (map attempt_id rows) 0 + 1"

text \<open>
  \<open>recordAttempt\<close>. The result pairs what the call returns or throws with the database
  after it. The two letter ids come from \<open>letters\<close>, so their foreign keys hold; the
  user's is checked by the insert.
\<close>

definition recordAttempt :: "db \<Rightarrow> int \<Rightarrow> NewAttempt \<Rightarrow> (error + unit) \<times> db" where
  "recordAttempt d now a =
     (case letterIdByAr d (targetLetterAr a) of
        Inl e \<Rightarrow> (Inl e, d)
      | Inr targetId \<Rightarrow>
          (case resolve_predicted d (predictedLetterAr a) of
             Inl e \<Rightarrow> (Inl e, d)
           | Inr predId \<Rightarrow>
               (case attempts_tbl d of
                  None \<Rightarrow> (Inl (NoSuchTable ''attempts''), d)
                | Some rows \<Rightarrow>
                    if \<not> user_fk_ok d (userId a) then (Inl ForeignKeyFailed, d)
                    else (Inr (),
                          d\<lparr>attempts_tbl := Some (rows @
                             [\<lparr>attempt_id = next_attempt_id rows,
                               user_id = userId a,
                               target_letter_id = targetId,
                               predicted_letter_id = predId,
                               correct = (if correctFlag a then 1 else 0),
                               confidence = nullish (confidenceVal a),
                               duration_ms = nullish (durationMs a),
                               audio_uri = nullish (audioUri a),
                               created_at = strftime_iso now\<rparr>])\<rparr>))))"

text \<open>\<open>SUM\<close> of a column: \<open>NULL\<close> over no rows.\<close>

definition sql_sum :: "int list \<Rightarrow> int option" where
  "sql_sum xs = (if xs = [] then None else Some (sum_list xs))"

text \<open>\<open>x ?? 0\<close>.\<close>

definition or_zero :: "'a::zero option \<Rightarrow> 'a" where
  "or_zero x = (case x of None \<Rightarrow> 0 | Some v \<Rightarrow> v)"

record PerLetter =
  pl_ar :: string
  pl_n :: int
  pl_correct :: int
  pl_acc :: rat

text \<open>
  \<open>getPerLetterStats\<close>. \<open>letters.id\<close> is the primary key, so each group of
  \<open>GROUP BY l.id\<close> holds the join rows of one letter: the user's attempts on it, or one
  row of \<open>NULL\<close>s when there are none, which \<open>COUNT(a.id)\<close> does not count. The groups
  come out \<open>ORDER BY l.order_index\<close>; the JavaScript \<open>map\<close> replaces \<open>NULL\<close> by \<open>0\<close>.
\<close>

definition per_letter_row :: "attempt_row list \<Rightarrow> string \<Rightarrow> letter_row \<Rightarrow> PerLetter" where
  "per_letter_row rows uid l =
     (let g = filter (\<lambda>a. target_letter_id a = letter_id l \<and> user_id a = uid) rows;
          n = int (length g);
          s = sql_sum (map correct g);
          acc = (if n = 0 then Some 0 else map_option (\<lambda>c. rat_of_int c / rat_of_int n) s)
      in \<lparr>pl_ar = ar l, pl_n = n, pl_correct = or_zero s, pl_acc = or_zero acc\<rparr>)"

definition getPerLetterStats :: "db \<Rightarrow> string \<Rightarrow> error + PerLetter list" where
  "getPerLetterStats d uid =
     (case letters_tbl d of
        None \<Rightarrow> Inl (NoSuchTable ''letters'')
      | Some ls \<Rightarrow>
          (case attempts_tbl d of
             None \<Rightarrow> Inl (NoSuchTable ''attempts'')
           | Some rows \<Rightarrow> Inr (map (per_letter_row rows uid) (sort_key order_index ls))))"

record totals =
  tot_n :: int
  tot_correct :: int
  tot_acc :: rat

text \<open>\<open>getTotals\<close>: \<open>COUNT(*)\<close> and \<open>SUM(correct)\<close> over the user's attempts, then
  \<open>acc = n ? correct / n : 0\<close>.\<close>

definition getTotals :: "db \<Rightarrow> string \<Rightarrow> error + totals" where
  "getTotals d uid =
     (case attempts_tbl d of
        None \<Rightarrow> Inl (NoSuchTable ''attempts'')
      | Some rows \<Rightarrow>
          (let mine = filter (\<lambda>a. user_id a = uid) rows;
               n = int (length mine);
               c = or_zero (sql_sum (map correct mine))
           in Inr \<lparr>tot_n = n, tot_correct = c,
                   tot_acc = (if n \<noteq> 0 then rat_of_int c / rat_of_int n else 0)\<rparr>))"

record day_bucket =
  day :: string
  day_n :: int
  day_acc :: rat

text \<open>\<open>substr(created_at, 1, 10)\<close>.\<close>

definition day_of :: "attempt_row \<Rightarrow> string" where
  "day_of a = take 10 (created_at a)"

text \<open>\<open>GROUP BY day ORDER BY day ASC\<close> over the rows the \<open>WHERE\<close> clause kept: one
  output row per distinct day, with \<open>COUNT(*)\<close> and the mean of \<open>correct\<close>.\<close>

definition bucket_of :: "attempt_row list \<Rightarrow> string \<Rightarrow> day_bucket" where
  "bucket_of kept dy =
     (let g = filter (\<lambda>a. day_of a = dy) kept;
          n = int (length g)
      in \<lparr>day = dy, day_n = n,
          day_acc = (if n = 0 then 0 else rat_of_int (sum_list (map correct g)) / rat_of_int n)\<rparr>)"

definition group_by_day :: "attempt_row list \<Rightarrow> day_bucket list" where
  "group_by_day kept = map (bucket_of kept) (sort (remdups (map day_of kept)))"

text \<open>\<open>getLast7Days\<close>: \<open>created_at >= datetime('now','-7 days')\<close> compares two texts,
  byte by byte.\<close>

definition getLast7Days :: "db \<Rightarrow> int \<Rightarrow> string \<Rightarrow> error + day_bucket list" where
  "getLast7Days d now uid =
     (case attempts_tbl d of
        None \<Rightarrow> Inl (NoSuchTable ''attempts'')
      | Some rows \<Rightarrow>
          Inr (group_by_day
                 (filter (\<lambda>a. user_id a = uid \<and> created_at a \<ge> cutoff7 now) rows)))"

text \<open>\<open>getLast7DaysForLetters\<close>: \<open>letterNames\<close> is \<open>None\<close> for \<open>null\<close> or \<open>undefined\<close>.
  The join keeps a copy of an attempt for each row of \<open>letters\<close> with its target id.\<close>

definition getLast7DaysForLetters ::
    "db \<Rightarrow> int \<Rightarrow> string \<Rightarrow> string list option \<Rightarrow> error + day_bucket list" where
  "getLast7DaysForLetters d now uid letterNames =
     (case letterNames of
        None \<Rightarrow> Inr []
      | Some names \<Rightarrow>
          if length names = 0 then Inr []
          else
            (case attempts_tbl d of
               None \<Rightarrow> Inl (NoSuchTable ''attempts'')
             | Some rows \<Rightarrow>
                 (case letters_tbl d of
                    None \<Rightarrow> Inl (NoSuchTable ''letters'')
                  | Some ls \<Rightarrow>
                      Inr (group_by_day
                             (concat (map (\<lambda>a. map (\<lambda>l. a)
                                  (filter (\<lambda>l. letter_id l = target_letter_id a \<and>
                                               user_id a = uid \<and>
                                               created_at a \<ge> cutoff7 now \<and>
                                               ar l \<in> set names) ls)) rows))))))"

text \<open>The loop of \<open>computeAndUpdateLevel\<close> over the rows of
  \<open>SELECT * FROM levels ORDER BY level ASC\<close>, from \<open>best = 1\<close>.\<close>

definition level_step :: "int \<Rightarrow> rat \<Rightarrow> level_row \<Rightarrow> int \<Rightarrow> int" where
  "level_step n acc L best =
     (if n \<ge> min_attempts L \<and> acc \<ge> min_accuracy L then level L else best)"

definition best_level :: "int \<Rightarrow> rat \<Rightarrow> level_row list \<Rightarrow> int" where
  "best_level n acc ls = fold (level_step n acc) (sort_key level ls) 1"

text \<open>\<open>INSERT INTO user_levels(user_id, level) VALUES (?, ?) ON CONFLICT(user_id) DO
  UPDATE SET level = excluded.level, updated_at = now\<close>.\<close>

definition upsert_user_level ::
    "user_level_row list \<Rightarrow> string \<Rightarrow> int \<Rightarrow> string \<Rightarrow> user_level_row list" where
  "upsert_user_level uls uid lv ts =
     (if uid \<in> set (map ul_user_id uls)
      then map (\<lambda>r. if ul_user_id r = uid then r\<lparr>ul_level := lv, updated_at := ts\<rparr> else r) uls
      else uls @ [\<lparr>ul_user_id = uid, ul_level = lv, updated_at = ts\<rparr>])"

text \<open>The parent-key check of \<open>FOREIGN KEY(level) REFERENCES levels(level)\<close>.\<close>

definition level_fk_ok :: "db \<Rightarrow> int \<Rightarrow> bool" where
  "level_fk_ok d lv =
     (\<not> foreign_keys d \<or>
      (case levels_tbl d of None \<Rightarrow> False | Some ls \<Rightarrow> lv \<in> set (map level ls)))"

text \<open>
  The parent-key checks of the upsert. When no row of the user is stored, a row is
  inserted and both keys are checked: \<open>user_id\<close> in \<open>users\<close> and \<open>level\<close> in \<open>levels\<close>.
  When a row is stored, \<open>DO UPDATE\<close> assigns \<open>level\<close> and \<open>updated_at\<close> and leaves
  \<open>user_id\<close> as it is, so only the \<open>level\<close> key is checked again.
\<close>

definition user_level_fk_ok :: "db \<Rightarrow> user_level_row list \<Rightarrow> string \<Rightarrow> int \<Rightarrow> bool" where
  "user_level_fk_ok d uls uid lv =
     ((uid \<in> set (map ul_user_id uls) \<or> user_fk_ok d uid) \<and> level_fk_ok d lv)"

definition computeAndUpdateLevel :: "db \<Rightarrow> int \<Rightarrow> string \<Rightarrow> (error + int) \<times> db" where
  "computeAndUpdateLevel d now uid =
     (case getTotals d uid of
        Inl e \<Rightarrow> (Inl e, d)
      | Inr t \<Rightarrow>
          (case levels_tbl d of
             None \<Rightarrow> (Inl (NoSuchTable ''levels''), d)
           | Some ls \<Rightarrow>
               (let best = best_level (tot_n t) (tot_acc t) ls
                in (case user_levels_tbl d of
                      None \<Rightarrow> (Inl (NoSuchTable ''user_levels''), d)
                    | Some uls \<Rightarrow>
                        if \<not> user_level_fk_ok d uls uid best then (Inl ForeignKeyFailed, d)
                        else (Inr best,
                              d\<lparr>user_levels_tbl :=
                                  Some (upsert_user_level uls uid best (strftime_iso now))\<rparr>)))))"


section \<open>Specification-side definitions and sample states\<close>


text \<open>The \<open>correct\<close> column holds \<open>0\<close> or \<open>1\<close> (the schema's comment; \<open>recordAttempt\<close>
  writes nothing else).\<close>

definition flags_01 :: "attempt_row list \<Rightarrow> bool" where
  "flags_01 rows = list_all (\<lambda>a. correct a = 0 \<or> correct a = 1) rows"

text \<open>A migrated database with one registered user, and attempt tables for that user:
  \<open>sample_attempts k m\<close> has \<open>m\<close> attempts on the first letter, the first \<open>k\<close> of them
  correct.\<close>

definition alif :: string where
  "alif = [CHR 0xD8, CHR 0xA7, CHR 0xD9, CHR 0x84, CHR 0xD9, CHR 0x81]"

definition sample_db :: db where
  "sample_db = insert_user (runMigrations fresh_db) 1704243600000 ''u1''"

definition sample_attempt :: "nat \<Rightarrow> nat \<Rightarrow> attempt_row" where
  "sample_attempt k i =
     \<lparr>attempt_id = int i, user_id = ''u1'', target_letter_id = 0,
      predicted_letter_id = Some 0, correct = (if i \<le> k then 1 else 0),
      confidence = None, duration_ms = None, audio_uri = None,
      created_at = ''2024-01-03T01:00:00.000Z''\<rparr>"

definition sample_attempts :: "nat \<Rightarrow> nat \<Rightarrow> attempt_row list" where
  "sample_attempts k m = map (sample_attempt k) [1..<Suc m]"

definition sample_db_with :: "nat \<Rightarrow> nat \<Rightarrow> db" where
  "sample_db_with k m = sample_db\<lparr>attempts_tbl := Some (sample_attempts k m)\<rparr>"

definition sample_new :: "string \<Rightarrow> bool \<Rightarrow> NewAttempt" where
  "sample_new uid ok =
     \<lparr>userId = uid, targetLetterAr = alif, predictedLetterAr = Present alif,
      correctFlag = ok, confidenceVal = Present (99 / 100), durationMs = Present 1000,
      audioUri = Undefined\<rparr>"

section \<open>Guided tour: \<open>next()\<close>\<close>

lemma step_persist: "step (persist s t) = step t"
  by (simp add: persist_def split: option.splits)

lemma active_persist: "active (persist s t) = active t"
  by (simp add: persist_def split: option.splits)

lemma username_persist: "username (persist s t) = username t"
  by (simp add: persist_def split: option.splits)

lemma next_step_cases:
  "next_step s = (case s of Home \<Rightarrow> Levels | Levels \<Rightarrow> Practice | Practice \<Rightarrow> Profile
                    | Profile \<Rightarrow> Done | Done \<Rightarrow> Done)"
  by (cases s) (simp_all add: next_step_def order_def indexOf_def)

lemma indexOf_order:
  "indexOf order s = (case s of Home \<Rightarrow> 0 | Levels \<Rightarrow> 1 | Practice \<Rightarrow> 2
                        | Profile \<Rightarrow> 3 | Done \<Rightarrow> 4)"
  by (cases s) (simp_all add: order_def indexOf_def)

text \<open>
  C8. \<open>next()\<close> moves the step one position along home, levels, practice, profile, done
  and leaves it at done when it is already there. It is a total function of the tour's
  state: no step makes it fail, and it changes neither \<open>active\<close> nor \<open>username\<close>. (When
  a user name is set it also writes the new step to the store, at done as well.) The
  other transitions are total as well: from any state \<open>start\<close> leads to home,
  \<open>markPracticeDone\<close> to profile and \<open>finish\<close> to done.
\<close>

theorem next_advances_one_clamped:
  "step (next t) = (case step t of Home \<Rightarrow> Levels | Levels \<Rightarrow> Practice | Practice \<Rightarrow> Profile
                      | Profile \<Rightarrow> Done | Done \<Rightarrow> Done)
   \<and> indexOf order (step (next t)) = min (indexOf order (step t) + 1) 4
   \<and> active (next t) = active t \<and> username (next t) = username t
   \<and> step (start u t) = Home \<and> step (markPracticeDone t) = Profile \<and> step (finish t) = Done"
  by (cases "step t")
     (simp_all add: next_def Let_def step_persist active_persist username_persist
        next_step_cases indexOf_order start_def markPracticeDone_def finish_def)

theorem next_advances_one_clamped_witness:
  "map (\<lambda>s. step (next \<lparr>active = True, step = s, username = Some ''Amal'',
                          asyncStorage = Map.empty\<rparr>))
       [Home, Levels, Practice, Profile, Done]
   = [Levels, Practice, Profile, Done, Done]"
  using next_advances_one_clamped
          [of "\<lparr>active = True, step = Home, username = Some ''Amal'', asyncStorage = Map.empty\<rparr>"]
        next_advances_one_clamped
          [of "\<lparr>active = True, step = Levels, username = Some ''Amal'', asyncStorage = Map.empty\<rparr>"]
        next_advances_one_clamped
          [of "\<lparr>active = True, step = Practice, username = Some ''Amal'', asyncStorage = Map.empty\<rparr>"]
        next_advances_one_clamped
          [of "\<lparr>active = True, step = Profile, username = Some ''Amal'', asyncStorage = Map.empty\<rparr>"]
        next_advances_one_clamped
          [of "\<lparr>active = True, step = Done, username = Some ''Amal'', asyncStorage = Map.empty\<rparr>"]
  by simp

section \<open>Totals and level promotion\<close>

lemma sum_correct_count:
  "flags_01 xs \<Longrightarrow> sum_list (map correct xs) = int (length (filter (\<lambda>a. correct a = 1) xs))"
  unfolding flags_01_def by (induction xs) auto

lemma flags_01_filter: "flags_01 xs \<Longrightarrow> flags_01 (filter P xs)"
  unfolding flags_01_def by (induction xs) auto

lemma getTotals_Some:
  "attempts_tbl d = Some rows \<Longrightarrow>
   getTotals d uid =
     Inr \<lparr>tot_n = int (length (filter (\<lambda>a. user_id a = uid) rows)),
          tot_correct = sum_list (map correct (filter (\<lambda>a. user_id a = uid) rows)),
          tot_acc = (if filter (\<lambda>a. user_id a = uid) rows = [] then 0
                     else rat_of_int (sum_list (map correct (filter (\<lambda>a. user_id a = uid) rows)))
                          / rat_of_int (int (length (filter (\<lambda>a. user_id a = uid) rows))))\<rparr>"
  by (simp add: getTotals_def Let_def sql_sum_def or_zero_def)

text \<open>
  C7. On a database whose \<open>attempts\<close> table exists and holds \<open>0\<close>/\<open>1\<close> flags,
  \<open>getTotals\<close> returns \<open>n\<close> = the number of the user's attempts, \<open>correct\<close> = the number
  of those with \<open>correct = 1\<close>, and \<open>acc = correct / n\<close> when \<open>n > 0\<close> and \<open>0\<close> otherwise;
  a user without attempts gets \<open>n = 0\<close>, \<open>acc = 0\<close>.
\<close>

theorem getTotals_counts:
  assumes "attempts_tbl d = Some rows" and "flags_01 rows"
  shows "\<exists>t. getTotals d uid = Inr t
           \<and> tot_n t = int (length (filter (\<lambda>a. user_id a = uid) rows))
           \<and> tot_correct t = int (length (filter (\<lambda>a. user_id a = uid \<and> correct a = 1) rows))
           \<and> tot_acc t = (if tot_n t > 0 then rat_of_int (tot_correct t) / rat_of_int (tot_n t)
                          else 0)
           \<and> (filter (\<lambda>a. user_id a = uid) rows = [] \<longrightarrow> tot_n t = 0 \<and> tot_acc t = 0)"
proof -
  let ?mine = "filter (\<lambda>a. user_id a = uid) rows"
  have c: "sum_list (map correct ?mine) = int (length (filter (\<lambda>a. correct a = 1) ?mine))"
    by (rule sum_correct_count) (rule flags_01_filter[OF assms(2)])
  have f: "filter (\<lambda>a. correct a = 1) ?mine = filter (\<lambda>a. user_id a = uid \<and> correct a = 1) rows"
    by (simp add: conj_commute)
  show ?thesis
    unfolding getTotals_Some[OF assms(1)] c f by auto
qed

theorem getTotals_counts_witness:
  "attempts_tbl (sample_db_with 2 3) = Some (sample_attempts 2 3)
   \<and> flags_01 (sample_attempts 2 3)
   \<and> getTotals (sample_db_with 2 3) ''u1'' = Inr \<lparr>tot_n = 3, tot_correct = 2, tot_acc = 2 / 3\<rparr>
   \<and> getTotals (sample_db_with 2 3) ''u2'' = Inr \<lparr>tot_n = 0, tot_correct = 0, tot_acc = 0\<rparr>"
proof -
  have a: "attempts_tbl (sample_db_with 2 3) = Some (sample_attempts 2 3)"
    by (simp add: sample_db_with_def)
  have w: "flags_01 (sample_attempts 2 3)" by code_simp
  have 1: "getTotals (sample_db_with 2 3) ''u1'' = Inr \<lparr>tot_n = 3, tot_correct = 2, tot_acc = 2 / 3\<rparr>"
    by code_simp
  have 2: "getTotals (sample_db_with 2 3) ''u2'' = Inr \<lparr>tot_n = 0, tot_correct = 0, tot_acc = 0\<rparr>"
    by code_simp
  from getTotals_counts[OF a w, of "''u1''"] a w 1 2 show ?thesis by simp
qed










section \<open>The stored level does not feed the next one\<close>




text \<open>What the stored table can change is the user key of the upsert: with foreign keys
  on and a user id that is not a row of \<open>users\<close>, the insert of a first row is rejected,
  while the update of a stored row is not. The theorem below is for a user id that
  passes the key.\<close>

lemma upsert_user_key_on_insert_only:
  "fst (computeAndUpdateLevel (runMigrations fresh_db) 1704888000000 ''ghost'')
     = Inl ForeignKeyFailed"
  "fst (computeAndUpdateLevel
          ((runMigrations fresh_db)\<lparr>user_levels_tbl := Some [\<lparr>ul_user_id = ''ghost'', ul_level = 1,
               updated_at = ''2024-01-01T00:00:00.000Z''\<rparr>]\<rparr>) 1704888000000 ''ghost'')
     = Inr 1"
  by code_simp+



section \<open>Per-letter statistics\<close>

lemma length_CANON_LETTERS: "length CANON_LETTERS = 28"
  by (simp add: CANON_LETTERS_def)

lemma length_seed_letters: "length seed_letters = 28"
  by (simp add: seed_letters_def length_CANON_LETTERS)

lemma seed_letters_nth:
  "i < 28 \<Longrightarrow> seed_letters ! i = \<lparr>letter_id = int i, ar = CANON_LETTERS ! i, en = None,
                                     order_index = int i\<rparr>"
  by (simp add: seed_letters_def length_CANON_LETTERS nth_enumerate_eq)

lemma map_ar_seed_letters: "map ar seed_letters = CANON_LETTERS"
  by (rule nth_equalityI) (simp_all add: length_seed_letters length_CANON_LETTERS seed_letters_nth)

lemma sorted_seed_letters: "sorted (map order_index seed_letters)"
proof -
  have "map order_index seed_letters = map int [0..<28]"
    by (rule nth_equalityI) (simp_all add: length_seed_letters seed_letters_nth)
  then show ?thesis by (simp add: sorted_map del: upt.simps) 
qed

lemma sort_key_seed_letters: "sort_key order_index seed_letters = seed_letters"
  by (rule sort_key_id_if_sorted[OF sorted_seed_letters])

text \<open>
  C2. On a database whose \<open>letters\<close> table is the seeded catalog, \<open>getPerLetterStats\<close>
  returns 28 rows, one per canonical letter in catalog order, whatever the attempts are;
  row \<open>i\<close> counts the user's attempts on letter \<open>i\<close>, sums their \<open>correct\<close> flags, and has
  accuracy \<open>correct / count\<close>, or \<open>0\<close> when the count is \<open>0\<close>.
\<close>

theorem getPerLetterStats_full_catalog:
  assumes "letters_tbl d = Some seed_letters" and "attempts_tbl d = Some rows"
  shows "\<exists>rs. getPerLetterStats d uid = Inr rs
           \<and> length rs = 28
           \<and> map pl_ar rs = CANON_LETTERS
           \<and> (\<forall>i<28.
                 pl_n (rs ! i) =
                   int (length (filter (\<lambda>a. target_letter_id a = int i \<and> user_id a = uid) rows))
               \<and> pl_correct (rs ! i) =
                   sum_list (map correct
                     (filter (\<lambda>a. target_letter_id a = int i \<and> user_id a = uid) rows))
               \<and> pl_acc (rs ! i) =
                   (if pl_n (rs ! i) = 0 then 0
                    else rat_of_int (pl_correct (rs ! i)) / rat_of_int (pl_n (rs ! i))))"
proof -
  let ?rs = "map (per_letter_row rows uid) seed_letters"
  have r: "getPerLetterStats d uid = Inr ?rs"
    by (simp add: getPerLetterStats_def assms sort_key_seed_letters)
  have l: "length ?rs = 28" by (simp add: length_seed_letters)
  have a: "map pl_ar ?rs = CANON_LETTERS"
    unfolding map_ar_seed_letters[symmetric]
    by (simp add: per_letter_row_def Let_def)
  have n: "\<forall>i<28.
                 pl_n (?rs ! i) =
                   int (length (filter (\<lambda>a. target_letter_id a = int i \<and> user_id a = uid) rows))
               \<and> pl_correct (?rs ! i) =
                   sum_list (map correct
                     (filter (\<lambda>a. target_letter_id a = int i \<and> user_id a = uid) rows))
               \<and> pl_acc (?rs ! i) =
                   (if pl_n (?rs ! i) = 0 then 0
                    else rat_of_int (pl_correct (?rs ! i)) / rat_of_int (pl_n (?rs ! i)))"
    by (simp add: length_seed_letters seed_letters_nth per_letter_row_def Let_def sql_sum_def
          or_zero_def)
  from r l a n show ?thesis by blast
qed

theorem getPerLetterStats_full_catalog_witness:
  "letters_tbl (sample_db_with 2 3) = Some seed_letters
   \<and> attempts_tbl (sample_db_with 2 3) = Some (sample_attempts 2 3)
   \<and> (\<exists>rs. getPerLetterStats (sample_db_with 2 3) ''u1'' = Inr rs \<and> length rs = 28
          \<and> take 2 rs = [\<lparr>pl_ar = CANON_LETTERS ! 0, pl_n = 3, pl_correct = 2, pl_acc = 2 / 3\<rparr>,
                          \<lparr>pl_ar = CANON_LETTERS ! 1, pl_n = 0, pl_correct = 0, pl_acc = 0\<rparr>])"
proof -
  have l: "letters_tbl (sample_db_with 2 3) = Some seed_letters" by code_simp
  have a: "attempts_tbl (sample_db_with 2 3) = Some (sample_attempts 2 3)"
    by (simp add: sample_db_with_def)
  from getPerLetterStats_full_catalog[OF l a, of "''u1''"] obtain rs where
    rs: "getPerLetterStats (sample_db_with 2 3) ''u1'' = Inr rs" "length rs = 28"
    by blast
  have "map_sum id (take 2) (getPerLetterStats (sample_db_with 2 3) ''u1'') =
          Inr [\<lparr>pl_ar = CANON_LETTERS ! 0, pl_n = 3, pl_correct = 2, pl_acc = 2 / 3\<rparr>,
               \<lparr>pl_ar = CANON_LETTERS ! 1, pl_n = 0, pl_correct = 0, pl_acc = 0\<rparr>]"
    by code_simp
  with rs have "take 2 rs = [\<lparr>pl_ar = CANON_LETTERS ! 0, pl_n = 3, pl_correct = 2, pl_acc = 2 / 3\<rparr>,
                          \<lparr>pl_ar = CANON_LETTERS ! 1, pl_n = 0, pl_correct = 0, pl_acc = 0\<rparr>]"
    by simp
  with l a rs show ?thesis by blast
qed

section \<open>The 7-day series with an empty letter list\<close>

text \<open>
  C9. \<open>getLast7DaysForLetters\<close> with an empty letter list, or with none, returns the
  empty series for every database, clock and user: it returns before any query is made.
\<close>

theorem getLast7DaysForLetters_empty_list:
  "getLast7DaysForLetters d now uid (Some []) = Inr [] \<and>
   getLast7DaysForLetters d now uid None = Inr []"
  by (simp add: getLast7DaysForLetters_def)

theorem getLast7DaysForLetters_empty_list_witness:
  "getLast7Days (sample_db_with 2 3) 1704412800000 ''u1'' =
     Inr [\<lparr>day = ''2024-01-03'', day_n = 3, day_acc = 2 / 3\<rparr>]
   \<and> getLast7DaysForLetters (sample_db_with 2 3) 1704412800000 ''u1'' (Some [alif]) =
     Inr [\<lparr>day = ''2024-01-03'', day_n = 3, day_acc = 2 / 3\<rparr>]
   \<and> getLast7DaysForLetters (sample_db_with 2 3) 1704412800000 ''u1'' (Some []) = Inr []
   \<and> getLast7DaysForLetters (sample_db_with 2 3) 1704412800000 ''u1'' None = Inr []"
proof -
  have 1: "getLast7Days (sample_db_with 2 3) 1704412800000 ''u1'' =
     Inr [\<lparr>day = ''2024-01-03'', day_n = 3, day_acc = 2 / 3\<rparr>]"
    by code_simp
  have 2: "getLast7DaysForLetters (sample_db_with 2 3) 1704412800000 ''u1'' (Some [alif]) =
     Inr [\<lparr>day = ''2024-01-03'', day_n = 3, day_acc = 2 / 3\<rparr>]"
    by code_simp
  from 1 2 getLast7DaysForLetters_empty_list[of "sample_db_with 2 3" 1704412800000 "''u1''"]
  show ?thesis by simp
qed

section \<open>Recording an attempt\<close>

lemma letterIdByAr_unknown:
  "letters_tbl d = Some ls \<Longrightarrow> a \<notin> set (map ar ls) \<Longrightarrow> letterIdByAr d a = Inl (UnknownLetter a)"
  by (auto simp: letterIdByAr_def find_None_iff split: option.splits)

lemma letterIdByAr_known:
  "letters_tbl d = Some ls \<Longrightarrow> a \<in> set (map ar ls) \<Longrightarrow> \<exists>i. letterIdByAr d a = Inr i"
  by (cases "find (\<lambda>l. ar l = a) ls") (auto simp: letterIdByAr_def find_None_iff)

lemma resolve_predicted_falsy:
  "p = Undefined \<or> p = Null \<or> p = Present [] \<Longrightarrow> resolve_predicted d p = Inr None"
  by (auto simp: resolve_predicted_def)

lemma resolve_predicted_unknown:
  "letters_tbl d = Some ls \<Longrightarrow> s \<noteq> [] \<Longrightarrow> s \<notin> set (map ar ls) \<Longrightarrow>
   resolve_predicted d (Present s) = Inl (UnknownLetter s)"
  by (simp add: resolve_predicted_def letterIdByAr_unknown)

lemma resolve_predicted_known:
  assumes "letters_tbl d = Some ls" and "\<forall>s. p = Present s \<and> s \<noteq> [] \<longrightarrow> s \<in> set (map ar ls)"
  shows "\<exists>i. resolve_predicted d p = Inr i"
proof (cases p)
  case (Present s)
  show ?thesis
  proof (cases "s = []")
    case True
    with Present show ?thesis by (simp add: resolve_predicted_def)
  next
    case False
    with Present assms(2) have "s \<in> set (map ar ls)" by blast
    from letterIdByAr_known[OF assms(1) this] Present False show ?thesis
      by (auto simp: resolve_predicted_def)
  qed
qed (simp_all add: resolve_predicted_def)

lemma recordAttempt_resolved:
  assumes "letterIdByAr d (targetLetterAr a) = Inr tid"
    and "resolve_predicted d (predictedLetterAr a) = Inr pid"
    and "attempts_tbl d = Some rows"
  shows "recordAttempt d now a =
           (if user_fk_ok d (userId a)
            then (Inr (),
                  d\<lparr>attempts_tbl := Some (rows @
                     [\<lparr>attempt_id = next_attempt_id rows, user_id = userId a,
                       target_letter_id = tid, predicted_letter_id = pid,
                       correct = (if correctFlag a then 1 else 0),
                       confidence = nullish (confidenceVal a),
                       duration_ms = nullish (durationMs a),
                       audio_uri = nullish (audioUri a),
                       created_at = strftime_iso now\<rparr>])\<rparr>)
            else (Inl ForeignKeyFailed, d))"
  by (simp add: recordAttempt_def assms)

text \<open>\<open>recordAttempt\<close> writes to \<open>attempts\<close> only, and only \<open>0\<close>/\<open>1\<close> flags.\<close>

lemma recordAttempt_other_tables:
  "letters_tbl (snd (recordAttempt d now a)) = letters_tbl d"
  "levels_tbl (snd (recordAttempt d now a)) = levels_tbl d"
  "users_tbl (snd (recordAttempt d now a)) = users_tbl d"
  "user_levels_tbl (snd (recordAttempt d now a)) = user_levels_tbl d"
  "meta_tbl (snd (recordAttempt d now a)) = meta_tbl d"
  "indexes (snd (recordAttempt d now a)) = indexes d"
  "foreign_keys (snd (recordAttempt d now a)) = foreign_keys d"
  by (simp_all add: recordAttempt_def split: sum.splits option.splits)

lemma recordAttempt_flags_01:
  "attempts_tbl d = Some rows \<Longrightarrow> flags_01 rows \<Longrightarrow>
   \<exists>rows'. attempts_tbl (snd (recordAttempt d now a)) = Some rows' \<and> flags_01 rows'"
  by (auto simp: recordAttempt_def flags_01_def split: sum.splits option.splits)

text \<open>
  C3, as stated, fails: after \<open>runMigrations\<close> the \<open>foreign_keys\<close> pragma is on, and an
  attempt whose labels resolve but whose user id is not a row of \<open>users\<close> is rejected by
  \<open>FOREIGN KEY(user_id) REFERENCES users(id)\<close>; no row is appended.
\<close>

theorem recordAttempt_unregistered_user_counterexample:
  "letterIdByAr (runMigrations fresh_db) (targetLetterAr (sample_new ''ghost'' True)) = Inr 0
   \<and> resolve_predicted (runMigrations fresh_db) (predictedLetterAr (sample_new ''ghost'' True))
       = Inr (Some 0)
   \<and> recordAttempt (runMigrations fresh_db) 1704243600000 (sample_new ''ghost'' True)
       = (Inl ForeignKeyFailed, runMigrations fresh_db)"
  by code_simp

text \<open>
  C3, amended. On a database with the seeded catalog: a target label outside the
  catalog, or a non-empty predicted label outside it, makes \<open>recordAttempt\<close> throw the
  unknown-letter error with the database unchanged. When every label resolves, the call
  appends exactly one row to \<open>attempts\<close> and changes nothing else, provided the user id
  passes the foreign-key check (it is a row of \<open>users\<close>, or the pragma is off);
  otherwise the insert is rejected and the database is unchanged.
\<close>

theorem recordAttempt_unknown_or_one_row:
  assumes "letters_tbl d = Some seed_letters" and "attempts_tbl d = Some rows"
  shows "(targetLetterAr a \<notin> set CANON_LETTERS \<longrightarrow>
            recordAttempt d now a = (Inl (UnknownLetter (targetLetterAr a)), d))
       \<and> (\<forall>s. targetLetterAr a \<in> set CANON_LETTERS \<and> predictedLetterAr a = Present s
               \<and> s \<noteq> [] \<and> s \<notin> set CANON_LETTERS \<longrightarrow>
            recordAttempt d now a = (Inl (UnknownLetter s), d))
       \<and> (targetLetterAr a \<in> set CANON_LETTERS
           \<and> (\<forall>s. predictedLetterAr a = Present s \<and> s \<noteq> [] \<longrightarrow> s \<in> set CANON_LETTERS) \<longrightarrow>
            (if user_fk_ok d (userId a)
             then \<exists>row. recordAttempt d now a = (Inr (), d\<lparr>attempts_tbl := Some (rows @ [row])\<rparr>)
                        \<and> user_id row = userId a
                        \<and> correct row = (if correctFlag a then 1 else 0)
                        \<and> created_at row = strftime_iso now
             else recordAttempt d now a = (Inl ForeignKeyFailed, d)))"
proof -
  note c = map_ar_seed_letters[symmetric]
  have 1: "recordAttempt d now a = (Inl (UnknownLetter (targetLetterAr a)), d)"
    if "targetLetterAr a \<notin> set CANON_LETTERS"
    using that letterIdByAr_unknown[OF assms(1), of "targetLetterAr a"]
    by (simp add: recordAttempt_def c)
  have 2: "recordAttempt d now a = (Inl (UnknownLetter s), d)"
    if h: "targetLetterAr a \<in> set CANON_LETTERS" "predictedLetterAr a = Present s"
          "s \<noteq> []" "s \<notin> set CANON_LETTERS" for s
  proof -
    from letterIdByAr_known[OF assms(1), of "targetLetterAr a"] h(1) obtain tid where
      "letterIdByAr d (targetLetterAr a) = Inr tid" by (auto simp: c)
    moreover have "resolve_predicted d (predictedLetterAr a) = Inl (UnknownLetter s)"
      using resolve_predicted_unknown[OF assms(1) h(3)] h(2,4) by (simp add: c)
    ultimately show ?thesis by (simp add: recordAttempt_def)
  qed
  have 3: "if user_fk_ok d (userId a)
             then \<exists>row. recordAttempt d now a = (Inr (), d\<lparr>attempts_tbl := Some (rows @ [row])\<rparr>)
                        \<and> user_id row = userId a
                        \<and> correct row = (if correctFlag a then 1 else 0)
                        \<and> created_at row = strftime_iso now
             else recordAttempt d now a = (Inl ForeignKeyFailed, d)"
    if h: "targetLetterAr a \<in> set CANON_LETTERS"
          "\<forall>s. predictedLetterAr a = Present s \<and> s \<noteq> [] \<longrightarrow> s \<in> set CANON_LETTERS"
  proof -
    from letterIdByAr_known[OF assms(1), of "targetLetterAr a"] h(1) obtain tid where
      t: "letterIdByAr d (targetLetterAr a) = Inr tid" by (auto simp: c)
    from resolve_predicted_known[OF assms(1), of "predictedLetterAr a"] h(2) obtain pid where
      p: "resolve_predicted d (predictedLetterAr a) = Inr pid" by (auto simp: c)
    show ?thesis unfolding recordAttempt_resolved[OF t p assms(2)]
      by (cases "user_fk_ok d (userId a)") (auto intro!: exI)
  qed
  from 1 2 3 show ?thesis by blast
qed

theorem recordAttempt_unknown_or_one_row_witness:
  "letters_tbl sample_db = Some seed_letters \<and> attempts_tbl sample_db = Some []
   \<and> ''x'' \<notin> set CANON_LETTERS \<and> alif \<in> set CANON_LETTERS \<and> user_fk_ok sample_db ''u1''
   \<and> recordAttempt sample_db 1704243600000 ((sample_new ''u1'' True)\<lparr>targetLetterAr := ''x''\<rparr>)
       = (Inl (UnknownLetter ''x''), sample_db)
   \<and> recordAttempt sample_db 1704243600000 ((sample_new ''u1'' True)\<lparr>predictedLetterAr := Present ''x''\<rparr>)
       = (Inl (UnknownLetter ''x''), sample_db)
   \<and> (\<exists>row. recordAttempt sample_db 1704243600000 (sample_new ''u1'' True)
              = (Inr (), sample_db\<lparr>attempts_tbl := Some ([] @ [row])\<rparr>)
            \<and> user_id row = ''u1'' \<and> correct row = 1
            \<and> created_at row = ''2024-01-03T01:00:00.000Z'')"
proof -
  have l: "letters_tbl sample_db = Some seed_letters" by code_simp
  have a: "attempts_tbl sample_db = Some []" by code_simp
  have x: "''x'' \<notin> set CANON_LETTERS" by code_simp
  have y: "alif \<in> set CANON_LETTERS" by code_simp
  have k: "user_fk_ok sample_db ''u1''" by code_simp
  have ts: "strftime_iso 1704243600000 = ''2024-01-03T01:00:00.000Z''" by code_simp
  have 1: "recordAttempt sample_db 1704243600000 ((sample_new ''u1'' True)\<lparr>targetLetterAr := ''x''\<rparr>)
       = (Inl (UnknownLetter ''x''), sample_db)"
    using recordAttempt_unknown_or_one_row[OF l a,
            of "(sample_new ''u1'' True)\<lparr>targetLetterAr := ''x''\<rparr>" 1704243600000] x
    by simp
  have 2: "recordAttempt sample_db 1704243600000 ((sample_new ''u1'' True)\<lparr>predictedLetterAr := Present ''x''\<rparr>)
       = (Inl (UnknownLetter ''x''), sample_db)"
    using recordAttempt_unknown_or_one_row[OF l a,
            of "(sample_new ''u1'' True)\<lparr>predictedLetterAr := Present ''x''\<rparr>" 1704243600000] x y
    by (simp add: sample_new_def)
  have 3: "\<exists>row. recordAttempt sample_db 1704243600000 (sample_new ''u1'' True)
              = (Inr (), sample_db\<lparr>attempts_tbl := Some ([] @ [row])\<rparr>)
            \<and> user_id row = ''u1'' \<and> correct row = 1
            \<and> created_at row = ''2024-01-03T01:00:00.000Z''"
    using recordAttempt_unknown_or_one_row[OF l a, of "sample_new ''u1'' True" 1704243600000] y k
    by (simp add: sample_new_def ts)
  from l a x y k 1 2 3 show ?thesis by blast
qed

text \<open>
  C10. A predicted label that is \<open>undefined\<close>, \<open>null\<close> or the empty string is not looked
  up: the call behaves as with \<open>null\<close>, and when the target label resolves (and the
  insert passes the user's foreign key) the row is appended with a \<open>NULL\<close> predicted
  letter. No unknown-letter error comes from such a predicted label.
\<close>

theorem recordAttempt_falsy_predicted_is_absent:
  assumes "p = Undefined \<or> p = Null \<or> p = Present []"
  shows "resolve_predicted d p = Inr None
       \<and> recordAttempt d now (a\<lparr>predictedLetterAr := p\<rparr>)
           = recordAttempt d now (a\<lparr>predictedLetterAr := Null\<rparr>)
       \<and> (\<forall>tid rows. letterIdByAr d (targetLetterAr a) = Inr tid \<and> attempts_tbl d = Some rows
              \<and> user_fk_ok d (userId a) \<longrightarrow>
            (\<exists>row. recordAttempt d now (a\<lparr>predictedLetterAr := p\<rparr>)
                      = (Inr (), d\<lparr>attempts_tbl := Some (rows @ [row])\<rparr>)
                  \<and> predicted_letter_id row = None \<and> target_letter_id row = tid))"
proof -
  have r: "resolve_predicted d p = Inr None"
    by (rule resolve_predicted_falsy[OF assms])
  have n: "resolve_predicted d Null = Inr None"
    by (simp add: resolve_predicted_def)
  have e: "recordAttempt d now (a\<lparr>predictedLetterAr := p\<rparr>)
           = recordAttempt d now (a\<lparr>predictedLetterAr := Null\<rparr>)"
    by (simp add: recordAttempt_def r n split: sum.splits option.splits)
  have i: "\<exists>row. recordAttempt d now (a\<lparr>predictedLetterAr := p\<rparr>)
                      = (Inr (), d\<lparr>attempts_tbl := Some (rows @ [row])\<rparr>)
                  \<and> predicted_letter_id row = None \<and> target_letter_id row = tid"
    if h: "letterIdByAr d (targetLetterAr a) = Inr tid" "attempts_tbl d = Some rows"
          "user_fk_ok d (userId a)" for tid rows
    using h by (auto simp: recordAttempt_def r intro!: exI)
  from r e i show ?thesis by blast
qed

theorem recordAttempt_falsy_predicted_is_absent_witness:
  "letterIdByAr sample_db alif = Inr 0 \<and> attempts_tbl sample_db = Some []
   \<and> user_fk_ok sample_db ''u1''
   \<and> (\<exists>row. recordAttempt sample_db 1704243600000
                ((sample_new ''u1'' True)\<lparr>predictedLetterAr := Present []\<rparr>)
              = (Inr (), sample_db\<lparr>attempts_tbl := Some ([] @ [row])\<rparr>)
            \<and> predicted_letter_id row = None \<and> target_letter_id row = 0)"
proof -
  have t: "letterIdByAr sample_db alif = Inr 0" by code_simp
  have a: "attempts_tbl sample_db = Some []" by code_simp
  have k: "user_fk_ok sample_db ''u1''" by code_simp
  have "Present [] = Undefined \<or> Present [] = Null \<or> Present [] = (Present [] :: string optional)"
    by simp
  from recordAttempt_falsy_predicted_is_absent[OF this, of sample_db 1704243600000
         "sample_new ''u1'' True", THEN conjunct2, THEN conjunct2, rule_format, of 0 "[]"] t a k
  have "\<exists>row. recordAttempt sample_db 1704243600000
                ((sample_new ''u1'' True)\<lparr>predictedLetterAr := Present []\<rparr>)
              = (Inr (), sample_db\<lparr>attempts_tbl := Some ([] @ [row])\<rparr>)
            \<and> predicted_letter_id row = None \<and> target_letter_id row = 0"
    by (simp add: sample_new_def)
  with t a k show ?thesis by blast
qed

section \<open>Migrations\<close>

lemma runMigrations_at_latest:
  assumes "meta_first d = Some v" and "v \<ge> 1"
  shows "runMigrations d = d\<lparr>foreign_keys := True\<rparr>"
proof -
  from assms(1) obtain rest where m: "meta_tbl d = Some (v # rest)"
    by (auto simp: meta_first_def split: option.splits list.splits)
  have u: "d\<lparr>foreign_keys := True, meta_tbl := Some (v # rest)\<rparr> = d\<lparr>foreign_keys := True\<rparr>"
    using m by (cases d) simp
  from assms(2) show ?thesis
    by (simp add: runMigrations_def Let_def meta_first_def m create_if_not_exists_def
          MIGRATIONS_def apply_migration_def u)
qed

lemma runMigrations_version: "\<exists>v. meta_first (runMigrations d) = Some v \<and> v \<ge> 1"
proof (cases "\<exists>v. meta_first d = Some v \<and> v \<ge> 1")
  case True
  then obtain v where v: "meta_first d = Some v" "v \<ge> 1" by blast
  then show ?thesis
    unfolding runMigrations_at_latest[OF v] by (auto simp: meta_first_def)
next
  case False
  then have "meta_tbl (runMigrations d) = Some [1]"
    by (auto simp: runMigrations_def Let_def meta_first_def create_if_not_exists_def
          MIGRATIONS_def apply_migration_def migration1_sql_def migration1_post_def
          split: option.splits list.splits)
  then show ?thesis by (simp add: meta_first_def)
qed

lemma runMigrations_foreign_keys: "foreign_keys (runMigrations d)"
  by (auto simp: runMigrations_def Let_def meta_first_def create_if_not_exists_def
        MIGRATIONS_def apply_migration_def migration1_sql_def migration1_post_def
        split: option.splits list.splits)

lemma runMigrations_fresh:
  "runMigrations fresh_db =
     \<lparr>foreign_keys = True, meta_tbl = Some [1], users_tbl = Some [],
      letters_tbl = Some seed_letters, attempts_tbl = Some [], levels_tbl = Some seed_levels,
      user_levels_tbl = Some [],
      indexes = [''idx_attempts_user'', ''idx_attempts_user_date'', ''idx_attempts_user_letter'']\<rparr>"
  by (simp add: runMigrations_def fresh_db_def Let_def meta_first_def create_if_not_exists_def
        MIGRATIONS_def apply_migration_def migration1_sql_def migration1_post_def
        create_index_def)

text \<open>
  C6. On a database whose version marker is already at the latest migration,
  \<open>runMigrations\<close> runs no migration: every table, every row and every index is as
  before (only the connection's \<open>foreign_keys\<close> pragma is set). After any run the marker
  is at the latest version, so a second run in a row returns the database of the first:
  no schema change, no second copy of the letters or of the thresholds.
\<close>

theorem runMigrations_idempotent:
  "(\<forall>v. meta_first d = Some v \<and> v \<ge> 1 \<longrightarrow> runMigrations d = d\<lparr>foreign_keys := True\<rparr>)
   \<and> runMigrations (runMigrations d) = runMigrations d"
proof -
  obtain v where v: "meta_first (runMigrations d) = Some v" "v \<ge> 1"
    using runMigrations_version by blast
  have "(runMigrations d)\<lparr>foreign_keys := True\<rparr> = runMigrations d"
    using runMigrations_foreign_keys[of d] by (cases "runMigrations d") simp
  with runMigrations_at_latest[OF v] have "runMigrations (runMigrations d) = runMigrations d"
    by simp
  with runMigrations_at_latest show ?thesis by blast
qed

theorem runMigrations_idempotent_witness:
  "meta_first (runMigrations fresh_db) = Some 1
   \<and> runMigrations (runMigrations fresh_db) = runMigrations fresh_db
   \<and> letters_tbl (runMigrations (runMigrations fresh_db)) = Some seed_letters
   \<and> levels_tbl (runMigrations (runMigrations fresh_db)) = Some seed_levels
   \<and> length seed_letters = 28 \<and> length seed_levels = 5"
proof -
  have m: "meta_first (runMigrations fresh_db) = Some 1"
    by (simp add: runMigrations_fresh meta_first_def)
  have i: "runMigrations (runMigrations fresh_db) = runMigrations fresh_db"
    using runMigrations_idempotent[of fresh_db] by blast
  have l: "letters_tbl (runMigrations (runMigrations fresh_db)) = Some seed_letters"
    unfolding i by (simp add: runMigrations_fresh)
  have t: "levels_tbl (runMigrations (runMigrations fresh_db)) = Some seed_levels"
    unfolding i by (simp add: runMigrations_fresh)
  have n: "length seed_levels = 5" by (simp add: seed_levels_def)
  from m i l t n length_seed_letters show ?thesis by blast
qed

section \<open>The 7-day series\<close>

text \<open>What the grouping does: one bucket per distinct day of the kept attempts, in
  ascending order, each with that day's count and the mean of its flags.\<close>

lemma group_by_day_days: "map day (group_by_day kept) = sort (remdups (map day_of kept))"
  by (simp add: group_by_day_def bucket_of_def Let_def comp_def)

lemma group_by_day_one_bucket_per_day:
  "distinct (map day (group_by_day kept))" "sorted (map day (group_by_day kept))"
  "set (map day (group_by_day kept)) = day_of ` set kept"
  by (simp_all add: group_by_day_days)

lemma group_by_day_bucket:
  assumes "b \<in> set (group_by_day kept)"
  shows "day_n b = int (length (filter (\<lambda>a. day_of a = day b) kept))"
    and "day_n b > 0"
    and "day_acc b = rat_of_int (sum_list (map correct (filter (\<lambda>a. day_of a = day b) kept)))
                     / rat_of_int (day_n b)"
proof -
  from assms obtain dy where dy: "dy \<in> day_of ` set kept" "b = bucket_of kept dy"
    by (auto simp: group_by_day_def)
  then have ne: "filter (\<lambda>a. day_of a = dy) kept \<noteq> []"
    by (auto simp: filter_empty_conv)
  show "day_n b = int (length (filter (\<lambda>a. day_of a = day b) kept))"
    by (simp add: dy(2) bucket_of_def Let_def)
  show "day_n b > 0" using ne by (simp add: dy(2) bucket_of_def Let_def)
  show "day_acc b = rat_of_int (sum_list (map correct (filter (\<lambda>a. day_of a = day b) kept)))
                     / rat_of_int (day_n b)"
    using ne by (simp add: dy(2) bucket_of_def Let_def)
qed

text \<open>The comparison with the cutoff is a comparison of texts. A stored timestamp has
  \<open>T\<close> after the date and the cutoff has a space, so every attempt made on the cutoff's
  calendar day passes, whatever its time of day.\<close>

lemma append_le_append_same: "(xs @ ys \<le> xs @ zs) = (ys \<le> (zs :: string))"
  by (induction xs) simp_all

lemma same_day_as_cutoff_is_kept:
  assumes "c div ms_per_day = (now - 7 * ms_per_day) div ms_per_day"
  shows "strftime_iso c \<ge> cutoff7 now"
proof -
  have "ymd c = ymd (now - 7 * ms_per_day)"
    by (simp add: ymd_def assms)
  then show ?thesis
    by (simp add: strftime_iso_def cutoff7_def sqlite_datetime_def append_le_append_same)
qed

text \<open>
  C5 does not hold of the code. An attempt recorded on 2024-01-03 at 01:00:00 UTC is
  7 days and 11 hours old on 2024-01-10 at 12:00:00 UTC, and both series still count it:
  its timestamp \<open>2024-01-03T01:00:00.000Z\<close> is compared as text with the cutoff
  \<open>2024-01-03 12:00:00\<close>.
\<close>

theorem last7Days_counts_attempt_older_than_7_days:
  "fst (recordAttempt sample_db 1704243600000 (sample_new ''u1'' True)) = Inr ()
   \<and> 1704243600000 < 1704888000000 - 7 * ms_per_day
   \<and> strftime_iso 1704243600000 = ''2024-01-03T01:00:00.000Z''
   \<and> cutoff7 1704888000000 = ''2024-01-03 12:00:00''
   \<and> getLast7Days (snd (recordAttempt sample_db 1704243600000 (sample_new ''u1'' True)))
        1704888000000 ''u1''
      = Inr [\<lparr>day = ''2024-01-03'', day_n = 1, day_acc = 1\<rparr>]
   \<and> getLast7DaysForLetters
        (snd (recordAttempt sample_db 1704243600000 (sample_new ''u1'' True)))
        1704888000000 ''u1'' (Some [alif])
      = Inr [\<lparr>day = ''2024-01-03'', day_n = 1, day_acc = 1\<rparr>]"
  by code_simp

end
